theory Spec2Isabelle
  imports Complex_Main
begin

section \<open>Numbers\<close>

text \<open>
  The component computes with JavaScript numbers. They are modelled by the reals: the
  finite values, without rounding. A JavaScript division never raises; with a zero divisor
  it yields \<open>Infinity\<close>, \<open>-Infinity\<close> or \<open>NaN\<close>. These results are kept apart as error
  values, so that a division by zero is a visible branch of the model. All divisors of
  the component are differences or sizes, never the negative zero.
\<close>

datatype nonfinite = PosInfinity | NegInfinity | NaN

definition js_div :: "real \<Rightarrow> real \<Rightarrow> nonfinite + real" where
  "js_div a b =
     (if b = 0 then Inl (if a = 0 then NaN else if 0 < a then PosInfinity else NegInfinity)
      else Inr (a / b))"


section \<open>Sizes\<close>

text \<open>
  \<open>type Sizes\<close>: the field \<open>size\<close> of \<open>Sizes['scrollbar']\<close> is named \<open>size_px\<close> here.
  \<open>axis_sizes\<close> is \<open>Omit<Sizes, 'thumb'>\<close>, what the axis components hand to their
  callbacks; \<open>with_thumb\<close> is the object spread \<open>{ ...sizes, thumb: thumbSizePx }\<close>.
\<close>

record scrollbar_sizes =
  size_px :: real
  paddingStart :: real
  paddingEnd :: real

record axis_sizes =
  content :: real
  viewport :: real
  scrollbar :: scrollbar_sizes

record sizes = axis_sizes +
  thumb :: real

definition with_thumb :: "axis_sizes \<Rightarrow> real \<Rightarrow> sizes" where
  "with_thumb s t =
     \<lparr>content = content s, viewport = viewport s, scrollbar = scrollbar s, thumb = t\<rparr>"


section \<open>Geometry\<close>

text \<open>
  Modelled from the spec: \<open>linearScale\<close>, imported from \<open>@radix-ui/number\<close>, is called by
  both interpolation functions but is not among the source files. The specification
  describes it as the shared linear-interpolation primitive mapping
  \<open>[domainMin, domainMax]\<close> to \<open>[codomainMin, codomainMax]\<close> that fails soft: when
  \<open>maxScroll \<le> 0\<close> or \<open>trackSize - padding - thumbSize \<le> 0\<close> it must not divide by zero and
  maps everything to the single codomain point. In both callers these two quantities are
  the widths of the domain and of the codomain, so the primitive treats a range whose
  upper end is not above its lower end as degenerate and returns the lower end of the
  codomain; otherwise it interpolates linearly, without clamping.
\<close>

definition linearScale :: "real \<times> real \<Rightarrow> real \<times> real \<Rightarrow> real \<Rightarrow> nonfinite + real" where
  "linearScale input output v =
     (if snd input \<le> fst input \<or> snd output \<le> fst output then Inr (fst output)
      else case js_div (snd output - fst output) (snd input - fst input) of
             Inl e \<Rightarrow> Inl e
           | Inr ratio \<Rightarrow> Inr (fst output + ratio * (v - fst input)))"

definition getThumbSizePx :: "real \<Rightarrow> scrollbar_sizes \<Rightarrow> real" where
  "getThumbSizePx ratio sb =
     (let scrollbarPadding = paddingStart sb + paddingEnd sb
      in (size_px sb - scrollbarPadding) * ratio)"

definition interpolateScrollPositionFromPointer ::
  "real \<Rightarrow> real \<Rightarrow> sizes \<Rightarrow> nonfinite + real" where
  "interpolateScrollPositionFromPointer pointerPos pointerOffset s =
     (let thumbOffsetFromEnd = thumb s - pointerOffset;
          minPointerPos = paddingStart (scrollbar s) + pointerOffset;
          maxPointerPos = size_px (scrollbar s) - paddingEnd (scrollbar s) - thumbOffsetFromEnd;
          maxScrollPos = content s - viewport s
      in linearScale (minPointerPos, maxPointerPos) (0, maxScrollPos) pointerPos)"

definition interpolateThumbOffsetFromScroll :: "real \<Rightarrow> sizes \<Rightarrow> nonfinite + real" where
  "interpolateThumbOffsetFromScroll scrollPos s =
     (let scrollbarPadding = paddingStart (scrollbar s) + paddingEnd (scrollbar s);
          scrollbar_inner = size_px (scrollbar s) - scrollbarPadding;
          maxScrollPos = content s - viewport s;
          maxThumbPos = scrollbar_inner - thumb s
      in linearScale (0, maxScrollPos) (0, maxThumbPos) scrollPos)"

text \<open>
  The composed map of pointer position to thumb offset: the scroll position computed from
  the pointer is fed to the thumb offset computation, as happens when a drag writes the
  native scroll offset and the scroll event moves the thumb.
\<close>

definition thumbOffsetFromPointer :: "real \<Rightarrow> real \<Rightarrow> sizes \<Rightarrow> nonfinite + real" where
  "thumbOffsetFromPointer pointerPos pointerOffset s =
     (case interpolateScrollPositionFromPointer pointerPos pointerOffset s of
        Inl e \<Rightarrow> Inl e
      | Inr scrollPos \<Rightarrow> interpolateThumbOffsetFromScroll scrollPos s)"


section \<open>The visible scrollbar: drag state\<close>

text \<open>
  \<open>ScrollAreaScrollbarVisible\<close> keeps \<open>pointerOffsetRef\<close> (a ref, initially 0) and the
  state \<open>thumbRatio\<close> (initially 0). The thumb's pointer-down handler stores the pointer
  coordinate of the scrollbar's axis, the pointer-up handler stores 0.
\<close>

datatype orientation = horizontal | vertical

record point =
  x :: real
  y :: real

record visible_state =
  pointerOffsetRef :: real
  thumbRatio :: real

definition initial_visible_state :: visible_state where
  "initial_visible_state = \<lparr>pointerOffsetRef = 0, thumbRatio = 0\<rparr>"

definition onThumbPointerDown :: "orientation \<Rightarrow> point \<Rightarrow> visible_state \<Rightarrow> visible_state" where
  "onThumbPointerDown ori pointerPos st =
     (case ori of
        horizontal \<Rightarrow> st\<lparr>pointerOffsetRef := x pointerPos\<rparr>
      | vertical \<Rightarrow> st\<lparr>pointerOffsetRef := y pointerPos\<rparr>)"

definition onThumbPointerUp :: "visible_state \<Rightarrow> visible_state" where
  "onThumbPointerUp st = st\<lparr>pointerOffsetRef := 0\<rparr>"

text \<open>
  \<open>pointerOffsetRef.current || thumbSizePx / 2\<close>: the left operand is taken when it is
  truthy, that is, for a number, when it is not 0.
\<close>

definition getScrollPositionFromPointer ::
  "visible_state \<Rightarrow> real \<Rightarrow> axis_sizes \<Rightarrow> nonfinite + real" where
  "getScrollPositionFromPointer st pointerPos s =
     (let thumbSizePx = getThumbSizePx (thumbRatio st) (scrollbar s);
          pointerOffset = (if pointerOffsetRef st = 0 then thumbSizePx / 2
                           else pointerOffsetRef st)
      in interpolateScrollPositionFromPointer pointerPos pointerOffset
           (with_thumb s thumbSizePx))"

definition getThumbOffsetFromScroll ::
  "visible_state \<Rightarrow> real \<Rightarrow> axis_sizes \<Rightarrow> nonfinite + real" where
  "getThumbOffsetFromScroll st scrollPos s =
     (let thumbSizePx = getThumbSizePx (thumbRatio st) (scrollbar s)
      in interpolateThumbOffsetFromScroll scrollPos (with_thumb s thumbSizePx))"


section \<open>The viewport and the wheel\<close>

text \<open>
  The fields of the viewport element that the component reads and writes. An assignment
  to \<open>scrollLeft\<close> or \<open>scrollTop\<close> is recorded as the value written; the clamping that the
  browser applies to it is not part of the component. \<open>context.viewport\<close> may be null:
  \<open>None\<close>.
\<close>

record viewport_element =
  scrollLeft :: real
  scrollTop :: real
  scrollWidth :: real
  scrollHeight :: real
  offsetWidth :: real
  offsetHeight :: real

record wheel_event =
  deltaX :: real
  deltaY :: real
  defaultPrevented :: bool

definition preventDefault :: "wheel_event \<Rightarrow> wheel_event" where
  "preventDefault ev = ev\<lparr>defaultPrevented := True\<rparr>"

definition preventPageScrollOnWheel :: "wheel_event \<Rightarrow> real \<Rightarrow> real \<Rightarrow> wheel_event" where
  "preventPageScrollOnWheel ev scrollPos maxScrollPos =
     (let isScrollingScrollbar = (0 < scrollPos \<and> scrollPos < maxScrollPos)
      in if isScrollingScrollbar then preventDefault ev else ev)"

text \<open>The \<open>onWheelScroll\<close> callback that \<open>ScrollAreaScrollbarVisible\<close> passes to its axis.\<close>

definition visible_onWheelScroll ::
  "orientation \<Rightarrow> wheel_event \<Rightarrow> real \<Rightarrow> real \<Rightarrow> viewport_element option
     \<Rightarrow> wheel_event \<times> viewport_element option" where
  "visible_onWheelScroll ori ev scrollPos maxScrollPos vp =
     (preventPageScrollOnWheel ev scrollPos maxScrollPos,
      case vp of
        None \<Rightarrow> None
      | Some v \<Rightarrow> (case ori of
                     horizontal \<Rightarrow> Some (v\<lparr>scrollLeft := scrollPos\<rparr>)
                   | vertical \<Rightarrow> Some (v\<lparr>scrollTop := scrollPos\<rparr>)))"

text \<open>The \<open>onWheelScroll\<close> handlers of \<open>ScrollAreaScrollbarX\<close> and \<open>ScrollAreaScrollbarY\<close>.\<close>

definition scrollbarX_onWheelScroll ::
  "wheel_event \<Rightarrow> viewport_element option \<Rightarrow> wheel_event \<times> viewport_element option" where
  "scrollbarX_onWheelScroll ev vp =
     (case vp of
        None \<Rightarrow> (ev, None)
      | Some v \<Rightarrow>
          (let scrollPos = scrollLeft v + deltaX ev;
               maxScrollPos = scrollWidth v - offsetWidth v
           in visible_onWheelScroll horizontal ev scrollPos maxScrollPos vp))"

definition scrollbarY_onWheelScroll ::
  "wheel_event \<Rightarrow> viewport_element option \<Rightarrow> wheel_event \<times> viewport_element option" where
  "scrollbarY_onWheelScroll ev vp =
     (case vp of
        None \<Rightarrow> (ev, None)
      | Some v \<Rightarrow>
          (let scrollPos = scrollTop v + deltaY ev;
               maxScrollPos = scrollHeight v - offsetHeight v
           in visible_onWheelScroll vertical ev scrollPos maxScrollPos vp))"

text \<open>
  \<open>handleWheel\<close> of \<open>ScrollAreaScrollbarImpl\<close>, bound on the document: only a wheel event
  whose target lies inside the scrollbar element reaches the axis handler.
\<close>

definition handleWheel ::
  "orientation \<Rightarrow> bool \<Rightarrow> wheel_event \<Rightarrow> viewport_element option
     \<Rightarrow> wheel_event \<times> viewport_element option" where
  "handleWheel ori isScrollbarWheel ev vp =
     (if isScrollbarWheel
      then (case ori of
              horizontal \<Rightarrow> scrollbarX_onWheelScroll ev vp
            | vertical \<Rightarrow> scrollbarY_onWheelScroll ev vp)
      else (ev, vp))"


section \<open>The thumb ratio\<close>

text \<open>
  The layout effect of each axis. \<open>context.viewport?.scrollWidth || 0\<close> is 0 without a
  viewport. The effect does nothing without a scrollbar element (\<open>None\<close> as the first
  argument, and then \<open>None\<close> as the result); with one, the first argument is
  \<open>toInt(computedStyle.width)\<close>, and the quotient is handed to \<open>onThumbRatioChange\<close>.
\<close>

definition contentWidth :: "viewport_element option \<Rightarrow> real" where
  "contentWidth vp = (case vp of None \<Rightarrow> 0 | Some v \<Rightarrow> scrollWidth v)"

definition contentHeight :: "viewport_element option \<Rightarrow> real" where
  "contentHeight vp = (case vp of None \<Rightarrow> 0 | Some v \<Rightarrow> scrollHeight v)"

definition thumbRatioEffectX ::
  "real option \<Rightarrow> viewport_element option \<Rightarrow> (nonfinite + real) option" where
  "thumbRatioEffectX scrollbarWidth vp =
     (case scrollbarWidth of
        None \<Rightarrow> None
      | Some w \<Rightarrow> Some (js_div w (contentWidth vp)))"

definition thumbRatioEffectY ::
  "real option \<Rightarrow> viewport_element option \<Rightarrow> (nonfinite + real) option" where
  "thumbRatioEffectY scrollbarHeight vp =
     (case scrollbarHeight of
        None \<Rightarrow> None
      | Some h \<Rightarrow> Some (js_div h (contentHeight vp)))"

text \<open>
  Each axis hands the effect to \<open>useLayoutEffect\<close> with the dependency list
  \<open>[scrollbar, contentWidth, handleThumbRatioChange]\<close> (\<open>contentHeight\<close> on the vertical
  axis). React runs such an effect after the first render of the component and after
  each later render whose dependency list differs in some position from the list of the
  render before. The scrollbar element and the callback are compared by identity: the
  element carries an identifier, the callback is given by one. The track size that the
  effect reads from the computed style of the scrollbar is not in the list.

  A render of an axis takes the dependency list of the render before (\<open>None\<close> for the
  first render) and returns what the effect hands to \<open>onThumbRatioChange\<close> (\<open>None\<close> when
  the effect does not run or finds no scrollbar element) together with its own list.
\<close>

record scrollbar_element =
  element_id :: nat
  style_width :: real
  style_height :: real

record effect_deps =
  dep_scrollbar :: "nat option"
  dep_content :: real
  dep_handler :: nat

definition useLayoutEffect_runs :: "effect_deps option \<Rightarrow> effect_deps \<Rightarrow> bool" where
  "useLayoutEffect_runs prev deps = (case prev of None \<Rightarrow> True | Some d \<Rightarrow> d \<noteq> deps)"

definition scrollbarX_deps ::
  "scrollbar_element option \<Rightarrow> viewport_element option \<Rightarrow> nat \<Rightarrow> effect_deps" where
  "scrollbarX_deps sb vp handleThumbRatioChange =
     \<lparr>dep_scrollbar = map_option element_id sb, dep_content = contentWidth vp,
      dep_handler = handleThumbRatioChange\<rparr>"

definition scrollbarY_deps ::
  "scrollbar_element option \<Rightarrow> viewport_element option \<Rightarrow> nat \<Rightarrow> effect_deps" where
  "scrollbarY_deps sb vp handleThumbRatioChange =
     \<lparr>dep_scrollbar = map_option element_id sb, dep_content = contentHeight vp,
      dep_handler = handleThumbRatioChange\<rparr>"

definition scrollbarX_render ::
  "effect_deps option \<Rightarrow> scrollbar_element option \<Rightarrow> viewport_element option \<Rightarrow> nat
     \<Rightarrow> (nonfinite + real) option \<times> effect_deps" where
  "scrollbarX_render prev sb vp handleThumbRatioChange =
     (let deps = scrollbarX_deps sb vp handleThumbRatioChange
      in (if useLayoutEffect_runs prev deps
          then thumbRatioEffectX (map_option style_width sb) vp
          else None,
          deps))"

definition scrollbarY_render ::
  "effect_deps option \<Rightarrow> scrollbar_element option \<Rightarrow> viewport_element option \<Rightarrow> nat
     \<Rightarrow> (nonfinite + real) option \<times> effect_deps" where
  "scrollbarY_render prev sb vp handleThumbRatioChange =
     (let deps = scrollbarY_deps sb vp handleThumbRatioChange
      in (if useLayoutEffect_runs prev deps
          then thumbRatioEffectY (map_option style_height sb) vp
          else None,
          deps))"


section \<open>The visibility policy\<close>

text \<open>
  \<open>ScrollArea\<close> destructures its props with \<open>type = 'hover'\<close>: the default is taken when
  the prop is undefined (\<open>None\<close>). \<open>ScrollAreaScrollbar\<close> compares the value with the four
  tags in turn and renders \<open>null\<close> (\<open>None\<close>) when none matches.
\<close>

datatype scrollbar_component =
  ScrollAreaScrollbarVisible | ScrollAreaScrollbarAuto
  | ScrollAreaScrollbarHover | ScrollAreaScrollbarScroll

definition ScrollArea_type :: "string option \<Rightarrow> string" where
  "ScrollArea_type prop = (case prop of None \<Rightarrow> ''hover'' | Some t \<Rightarrow> t)"

definition ScrollAreaScrollbar :: "string \<Rightarrow> scrollbar_component option" where
  "ScrollAreaScrollbar context_type =
     (if context_type = ''always'' then Some ScrollAreaScrollbarVisible
      else if context_type = ''auto'' then Some ScrollAreaScrollbarAuto
      else if context_type = ''hover'' then Some ScrollAreaScrollbarHover
      else if context_type = ''scroll'' then Some ScrollAreaScrollbarScroll
      else None)"


section \<open>The activity state machine\<close>

datatype activity_state = idle | hidden | scrolling | interacting

datatype activity_event =
  HIDE | SCROLL | SCROLL_END | SCROLLBAR_POINTER_ENTER | SCROLLBAR_POINTER_LEAVE

text \<open>
  The transition table that \<open>ScrollAreaScrollbarScroll\<close> passes to \<open>useStateMachine\<close>,
  entry by entry; \<open>None\<close> where the table has no entry.
\<close>

fun machine :: "activity_state \<Rightarrow> activity_event \<Rightarrow> activity_state option" where
  "machine idle HIDE = Some hidden"
| "machine idle SCROLL = Some scrolling"
| "machine idle SCROLLBAR_POINTER_ENTER = Some interacting"
| "machine hidden SCROLL = Some scrolling"
| "machine hidden SCROLLBAR_POINTER_ENTER = Some interacting"
| "machine scrolling SCROLL_END = Some idle"
| "machine scrolling SCROLLBAR_POINTER_ENTER = Some interacting"
| "machine interacting SCROLL = Some interacting"
| "machine interacting SCROLLBAR_POINTER_LEAVE = Some idle"
| "machine _ _ = None"

definition initialState :: activity_state where
  "initialState = hidden"

text \<open>
  Modelled from the spec: \<open>useStateMachine\<close>, imported from \<open>./useStateMachine\<close>, is not
  among the source files. The specification gives the machine as a list of transitions
  out of a current state; an event for which the current state lists no transition
  leaves the state as it is.
\<close>

definition useStateMachine_reducer ::
  "(activity_state \<Rightarrow> activity_event \<Rightarrow> activity_state option)
     \<Rightarrow> activity_state \<Rightarrow> activity_event \<Rightarrow> activity_state" where
  "useStateMachine_reducer m s e = (case m s e of None \<Rightarrow> s | Some s' \<Rightarrow> s')"

definition send :: "activity_state \<Rightarrow> activity_event \<Rightarrow> activity_state" where
  "send = useStateMachine_reducer machine"

text \<open>
  The transitions as section 4.4 of the specification lists them, written from its
  words, to be compared with the table of the source.
\<close>

fun spec_transition :: "activity_state \<Rightarrow> activity_event \<Rightarrow> activity_state" where
  "spec_transition s SCROLLBAR_POINTER_ENTER = interacting"
| "spec_transition idle HIDE = hidden"
| "spec_transition idle SCROLL = scrolling"
| "spec_transition hidden SCROLL = scrolling"
| "spec_transition scrolling SCROLL_END = idle"
| "spec_transition interacting SCROLL = interacting"
| "spec_transition interacting SCROLLBAR_POINTER_LEAVE = idle"
| "spec_transition s e = s"


section \<open>The activity state machine: theorems\<close>

lemma send_eq_spec_transition: "send s e = spec_transition s e"
  by (cases s; cases e) (simp_all add: send_def useStateMachine_reducer_def)

text \<open>
  Claim C1. The machine of the \<open>scroll\<close> policy starts in \<open>hidden\<close> and has exactly the
  transitions of section 4.4: pointer-enter leads from each of the four states to
  \<open>interacting\<close>; a scroll leads from \<open>idle\<close> and from \<open>hidden\<close> to \<open>scrolling\<close> and keeps
  \<open>interacting\<close>; scroll-end leads from \<open>scrolling\<close> to \<open>idle\<close>; hide leads from \<open>idle\<close> to
  \<open>hidden\<close>; pointer-leave leads from \<open>interacting\<close> to \<open>idle\<close>, and the only state from
  which a pointer-leave ends in \<open>hidden\<close> is \<open>hidden\<close> itself.
\<close>

theorem activity_machine_transitions:
  "initialState = hidden
   \<and> (\<forall>s e. send s e = spec_transition s e)
   \<and> (\<forall>s. send s SCROLLBAR_POINTER_ENTER = interacting)
   \<and> send idle SCROLL = scrolling
   \<and> send hidden SCROLL = scrolling
   \<and> send interacting SCROLL = interacting
   \<and> send scrolling SCROLL_END = idle
   \<and> send idle HIDE = hidden
   \<and> send interacting SCROLLBAR_POINTER_LEAVE = idle
   \<and> {s. send s SCROLLBAR_POINTER_LEAVE = hidden} = {hidden}"
proof -
  have enter: "\<forall>s. send s SCROLLBAR_POINTER_ENTER = interacting"
    by (simp add: send_eq_spec_transition)
  have leave: "{s. send s SCROLLBAR_POINTER_LEAVE = hidden} = {hidden}"
  proof (rule set_eqI)
    fix s show "(s \<in> {s. send s SCROLLBAR_POINTER_LEAVE = hidden}) = (s \<in> {hidden})"
      by (cases s) (simp_all add: send_eq_spec_transition)
  qed
  show ?thesis
    using enter leave by (simp add: send_eq_spec_transition initialState_def)
qed


section \<open>The wheel: theorems\<close>

text \<open>
  Claim C2. On a wheel event over the scrollbar, with a viewport, \<open>scrollPos\<close> the native
  offset plus the wheel delta and \<open>maxScrollPos\<close> the content extent minus the viewport
  extent: the default is prevented exactly when \<open>0 < scrollPos < maxScrollPos\<close>, and
  \<open>scrollPos\<close> is written to the native offset in either case. This holds on both axes.
\<close>

theorem wheel_prevents_default_mid_range:
  "defaultPrevented (fst (handleWheel horizontal True (ev\<lparr>defaultPrevented := False\<rparr>) (Some v)))
     = (0 < scrollLeft v + deltaX ev \<and> scrollLeft v + deltaX ev < scrollWidth v - offsetWidth v)
   \<and> map_option scrollLeft (snd (handleWheel horizontal True (ev\<lparr>defaultPrevented := False\<rparr>) (Some v)))
     = Some (scrollLeft v + deltaX ev)
   \<and> defaultPrevented (fst (handleWheel vertical True (ev\<lparr>defaultPrevented := False\<rparr>) (Some v)))
     = (0 < scrollTop v + deltaY ev \<and> scrollTop v + deltaY ev < scrollHeight v - offsetHeight v)
   \<and> map_option scrollTop (snd (handleWheel vertical True (ev\<lparr>defaultPrevented := False\<rparr>) (Some v)))
     = Some (scrollTop v + deltaY ev)"
  by (simp add: handleWheel_def scrollbarX_onWheelScroll_def scrollbarY_onWheelScroll_def
      visible_onWheelScroll_def preventPageScrollOnWheel_def preventDefault_def Let_def)

lemma wheel_examples:
  "handleWheel horizontal True \<lparr>deltaX = 50, deltaY = 0, defaultPrevented = False\<rparr>
     (Some \<lparr>scrollLeft = 200, scrollTop = 0, scrollWidth = 1000, scrollHeight = 400,
            offsetWidth = 400, offsetHeight = 400\<rparr>)
   = (\<lparr>deltaX = 50, deltaY = 0, defaultPrevented = True\<rparr>,
      Some \<lparr>scrollLeft = 250, scrollTop = 0, scrollWidth = 1000, scrollHeight = 400,
            offsetWidth = 400, offsetHeight = 400\<rparr>)
   \<and> handleWheel horizontal True \<lparr>deltaX = - 200, deltaY = 0, defaultPrevented = False\<rparr>
     (Some \<lparr>scrollLeft = 200, scrollTop = 0, scrollWidth = 1000, scrollHeight = 400,
            offsetWidth = 400, offsetHeight = 400\<rparr>)
   = (\<lparr>deltaX = - 200, deltaY = 0, defaultPrevented = False\<rparr>,
      Some \<lparr>scrollLeft = 0, scrollTop = 0, scrollWidth = 1000, scrollHeight = 400,
            offsetWidth = 400, offsetHeight = 400\<rparr>)
   \<and> handleWheel horizontal True \<lparr>deltaX = 400, deltaY = 0, defaultPrevented = False\<rparr>
     (Some \<lparr>scrollLeft = 200, scrollTop = 0, scrollWidth = 1000, scrollHeight = 400,
            offsetWidth = 400, offsetHeight = 400\<rparr>)
   = (\<lparr>deltaX = 400, deltaY = 0, defaultPrevented = False\<rparr>,
      Some \<lparr>scrollLeft = 600, scrollTop = 0, scrollWidth = 1000, scrollHeight = 400,
            offsetWidth = 400, offsetHeight = 400\<rparr>)"
  by (simp add: handleWheel_def scrollbarX_onWheelScroll_def visible_onWheelScroll_def
      preventPageScrollOnWheel_def preventDefault_def Let_def)


section \<open>Geometry: closed forms\<close>

text \<open>
  With the degenerate ranges set apart, the scale never divides by zero, and each
  interpolation has a closed form in the two widths it depends on: the scroll range
  \<open>content - viewport\<close> and the thumb range \<open>size - padding - thumb\<close>. The pointer
  domain of the first interpolation has the width of the thumb range, whatever the
  pointer offset.
\<close>

lemma linearScale_Inr:
  "linearScale (a, b) (c, d) v =
     Inr (if b \<le> a \<or> d \<le> c then c else c + (d - c) / (b - a) * (v - a))"
  by (simp add: linearScale_def js_div_def)

lemma interpolateScrollPositionFromPointer_Inr:
  "interpolateScrollPositionFromPointer p po s =
     Inr (if size_px (scrollbar s) - (paddingStart (scrollbar s) + paddingEnd (scrollbar s)) - thumb s \<le> 0
             \<or> content s - viewport s \<le> 0 then 0
          else (content s - viewport s)
               / (size_px (scrollbar s) - (paddingStart (scrollbar s) + paddingEnd (scrollbar s)) - thumb s)
               * (p - (paddingStart (scrollbar s) + po)))"
proof -
  have w: "size_px (scrollbar s) - paddingEnd (scrollbar s) - (thumb s - po)
             - (paddingStart (scrollbar s) + po)
           = size_px (scrollbar s) - (paddingStart (scrollbar s) + paddingEnd (scrollbar s)) - thumb s"
    by simp
  have d: "(size_px (scrollbar s) - paddingEnd (scrollbar s) - (thumb s - po)
              \<le> paddingStart (scrollbar s) + po)
           = (size_px (scrollbar s) - (paddingStart (scrollbar s) + paddingEnd (scrollbar s)) - thumb s \<le> 0)"
    by auto
  show ?thesis
    unfolding interpolateScrollPositionFromPointer_def Let_def linearScale_Inr w d
    by simp
qed

lemma interpolateThumbOffsetFromScroll_Inr:
  "interpolateThumbOffsetFromScroll v s =
     Inr (if content s - viewport s \<le> 0
             \<or> size_px (scrollbar s) - (paddingStart (scrollbar s) + paddingEnd (scrollbar s)) - thumb s \<le> 0
          then 0
          else (size_px (scrollbar s) - (paddingStart (scrollbar s) + paddingEnd (scrollbar s)) - thumb s)
               / (content s - viewport s) * v)"
  unfolding interpolateThumbOffsetFromScroll_def Let_def linearScale_Inr by simp

lemma scale_back: "0 < (t::real) \<Longrightarrow> 0 < m \<Longrightarrow> t / m * (m / t * q) = q"
  by simp

lemma thumbOffsetFromPointer_Inr:
  "thumbOffsetFromPointer p po s =
     Inr (if size_px (scrollbar s) - (paddingStart (scrollbar s) + paddingEnd (scrollbar s)) - thumb s \<le> 0
             \<or> content s - viewport s \<le> 0 then 0
          else p - (paddingStart (scrollbar s) + po))"
proof -
  define t where
    "t = size_px (scrollbar s) - (paddingStart (scrollbar s) + paddingEnd (scrollbar s)) - thumb s"
  define m where "m = content s - viewport s"
  define q where "q = p - (paddingStart (scrollbar s) + po)"
  have sp: "interpolateScrollPositionFromPointer p po s
              = Inr (if t \<le> 0 \<or> m \<le> 0 then 0 else m / t * q)"
    unfolding t_def m_def q_def by (rule interpolateScrollPositionFromPointer_Inr)
  have th: "interpolateThumbOffsetFromScroll v s
              = Inr (if m \<le> 0 \<or> t \<le> 0 then 0 else t / m * v)" for v
    unfolding t_def m_def by (rule interpolateThumbOffsetFromScroll_Inr)
  have "thumbOffsetFromPointer p po s = Inr (if t \<le> 0 \<or> m \<le> 0 then 0 else q)"
  proof (cases "t \<le> 0 \<or> m \<le> 0")
    case True
    then show ?thesis
      unfolding thumbOffsetFromPointer_def sp th by auto
  next
    case False
    then have pos: "0 < t" "0 < m" by auto
    show ?thesis
      unfolding thumbOffsetFromPointer_def sp th
      using False scale_back [OF pos, of q] by simp
  qed
  then show ?thesis
    unfolding t_def m_def q_def .
qed


section \<open>Geometry: theorems\<close>

text \<open>
  Claim C3. Neither interpolation divides by zero, whatever its input: each returns a
  finite number. When \<open>content - viewport \<le> 0\<close> the scroll position computed from the
  pointer is 0; when \<open>size - padding - thumb \<le> 0\<close> or \<open>content - viewport \<le> 0\<close> the thumb
  offset computed from the scroll position is 0.
\<close>

theorem interpolation_degenerate_sizes:
  "(\<exists>r. interpolateScrollPositionFromPointer p po s = Inr r)
   \<and> (\<exists>r. interpolateThumbOffsetFromScroll v s = Inr r)
   \<and> (content s - viewport s \<le> 0
        \<longrightarrow> interpolateScrollPositionFromPointer p po s = Inr 0)
   \<and> (size_px (scrollbar s) - (paddingStart (scrollbar s) + paddingEnd (scrollbar s)) - thumb s \<le> 0
        \<or> content s - viewport s \<le> 0
        \<longrightarrow> interpolateThumbOffsetFromScroll v s = Inr 0)"
  by (auto simp add: interpolateScrollPositionFromPointer_Inr interpolateThumbOffsetFromScroll_Inr)

theorem interpolation_degenerate_sizes_witness:
  "content \<lparr>content = 100, viewport = 200,
            scrollbar = \<lparr>size_px = 100, paddingStart = 0, paddingEnd = 0\<rparr>, thumb = 40\<rparr>
     - viewport \<lparr>content = 100, viewport = 200,
            scrollbar = \<lparr>size_px = 100, paddingStart = 0, paddingEnd = 0\<rparr>, thumb = 40\<rparr> \<le> (0::real)
   \<and> interpolateScrollPositionFromPointer 7 3
        \<lparr>content = 100, viewport = 200,
         scrollbar = \<lparr>size_px = 100, paddingStart = 0, paddingEnd = 0\<rparr>, thumb = 40\<rparr> = Inr 0
   \<and> interpolateThumbOffsetFromScroll 7
        \<lparr>content = 100, viewport = 200,
         scrollbar = \<lparr>size_px = 100, paddingStart = 0, paddingEnd = 0\<rparr>, thumb = 40\<rparr> = Inr 0"
  using interpolation_degenerate_sizes [of 7 3
        "\<lparr>content = 100, viewport = 200,
         scrollbar = \<lparr>size_px = 100, paddingStart = 0, paddingEnd = 0\<rparr>, thumb = 40\<rparr>" 7]
  by simp



text \<open>
  Every sizes value that the component itself builds has such a thumb range: the thumb
  size is \<open>getThumbSizePx\<close> of the ratio, and with a ratio between 0 and 1 and a padding
  within the scrollbar size it does not exceed the padded track. So the end points map
  onto each other for the caller of the interpolation.
\<close>

lemma component_thumb_range_nonneg:
  assumes "0 \<le> ratio" "ratio \<le> 1" "paddingStart sb + paddingEnd sb \<le> size_px sb"
  shows "0 \<le> size_px sb - paddingStart sb - paddingEnd sb - getThumbSizePx ratio sb"
proof -
  define w where "w = size_px sb - (paddingStart sb + paddingEnd sb)"
  have w: "0 \<le> w" using assms(3) by (simp add: w_def)
  have "0 \<le> w * (1 - ratio)" using w assms(2) by (simp add: mult_nonneg_nonneg)
  then have "0 \<le> w - w * ratio" by (simp add: algebra_simps)
  then show ?thesis by (simp add: getThumbSizePx_def w_def Let_def)
qed

lemma getThumbOffsetFromScroll_endpoints:
  assumes "0 < content s - viewport s"
    and "0 \<le> thumbRatio st" "thumbRatio st \<le> 1"
    and "paddingStart (scrollbar s) + paddingEnd (scrollbar s) \<le> size_px (scrollbar s)"
  shows "getThumbOffsetFromScroll st 0 s = Inr 0"
    and "getThumbOffsetFromScroll st (content s - viewport s) s
           = Inr (size_px (scrollbar s) - paddingStart (scrollbar s) - paddingEnd (scrollbar s)
                  - getThumbSizePx (thumbRatio st) (scrollbar s))"
proof -
  have r: "0 \<le> size_px (scrollbar s) - paddingStart (scrollbar s) - paddingEnd (scrollbar s)
              - getThumbSizePx (thumbRatio st) (scrollbar s)"
    using assms(2-4) by (rule component_thumb_range_nonneg)
  show "getThumbOffsetFromScroll st 0 s = Inr 0"
    by (simp add: getThumbOffsetFromScroll_def Let_def with_thumb_def
        interpolateThumbOffsetFromScroll_Inr)
  show "getThumbOffsetFromScroll st (content s - viewport s) s
           = Inr (size_px (scrollbar s) - paddingStart (scrollbar s) - paddingEnd (scrollbar s)
                  - getThumbSizePx (thumbRatio st) (scrollbar s))"
    using assms(1) r
    by (auto simp add: getThumbOffsetFromScroll_def Let_def with_thumb_def
        interpolateThumbOffsetFromScroll_Inr)
qed

text \<open>
  Claim C5. For sizes with \<open>content \<ge> viewport \<ge> 0\<close> and a fixed pointer offset, the thumb
  offset computed from the scroll position computed from the pointer position is a
  finite number that does not decrease when the pointer position grows.
\<close>

theorem pointer_to_thumb_monotone:
  "0 \<le> viewport s \<Longrightarrow> viewport s \<le> content s \<Longrightarrow> p \<le> p' \<Longrightarrow>
   \<exists>a b. thumbOffsetFromPointer p po s = Inr a
        \<and> thumbOffsetFromPointer p' po s = Inr b \<and> a \<le> b"
  by (simp add: thumbOffsetFromPointer_Inr)

theorem pointer_to_thumb_monotone_witness:
  "\<exists>a b. thumbOffsetFromPointer 5 5
        \<lparr>content = 1000, viewport = 400,
         scrollbar = \<lparr>size_px = 100, paddingStart = 0, paddingEnd = 0\<rparr>, thumb = 10\<rparr> = Inr a
     \<and> thumbOffsetFromPointer 35 5
        \<lparr>content = 1000, viewport = 400,
         scrollbar = \<lparr>size_px = 100, paddingStart = 0, paddingEnd = 0\<rparr>, thumb = 10\<rparr> = Inr b
     \<and> a \<le> b"
  using pointer_to_thumb_monotone [of
        "\<lparr>content = 1000, viewport = 400,
         scrollbar = \<lparr>size_px = 100, paddingStart = 0, paddingEnd = 0\<rparr>, thumb = 10\<rparr>" 5 35 5]
  by simp

text \<open>
  Claim C8, as stated, fails where the padding exceeds the scrollbar size: with size 10,
  paddings 8 and 8 and ratio 1/2 the thumb size is \<open>-3\<close>; nothing clamps it at 0.
\<close>

theorem thumb_size_negative_counterexample:
  "getThumbSizePx (1 / 2) \<lparr>size_px = 10, paddingStart = 8, paddingEnd = 8\<rparr> = - 3
   \<and> getThumbSizePx (1 / 2) \<lparr>size_px = 10, paddingStart = 8, paddingEnd = 8\<rparr>
       \<noteq> max 0 ((10 - (8 + 8)) * (1 / 2))"
  by (simp add: getThumbSizePx_def)

text \<open>
  Claim C8, amended. The thumb pixel size is \<open>(size - padding) * ratio\<close>; when the ratio
  is not negative and the padding does not exceed the scrollbar size, this is
  \<open>max 0 ((size - padding) * ratio)\<close> and not negative.
\<close>

theorem thumb_size_px_value:
  "getThumbSizePx ratio sb = (size_px sb - (paddingStart sb + paddingEnd sb)) * ratio
   \<and> (0 \<le> ratio \<and> paddingStart sb + paddingEnd sb \<le> size_px sb
        \<longrightarrow> getThumbSizePx ratio sb
              = max 0 ((size_px sb - (paddingStart sb + paddingEnd sb)) * ratio)
          \<and> 0 \<le> getThumbSizePx ratio sb)"
  by (simp add: getThumbSizePx_def Let_def max_def)

theorem thumb_size_px_value_witness:
  "(0::real) \<le> 2 / 5
   \<and> paddingStart \<lparr>size_px = 100, paddingStart = 2, paddingEnd = 3\<rparr>
       + paddingEnd \<lparr>size_px = 100, paddingStart = 2, paddingEnd = 3\<rparr>
       \<le> size_px \<lparr>size_px = 100, paddingStart = 2, paddingEnd = (3::real)\<rparr>
   \<and> getThumbSizePx (2 / 5) \<lparr>size_px = 100, paddingStart = 2, paddingEnd = 3\<rparr> = 38
   \<and> 0 \<le> getThumbSizePx (2 / 5) \<lparr>size_px = 100, paddingStart = 2, paddingEnd = 3\<rparr>"
  using thumb_size_px_value [of "2 / 5" "\<lparr>size_px = 100, paddingStart = 2, paddingEnd = 3\<rparr>"]
  by simp


section \<open>The thumb ratio: theorems\<close>

text \<open>
  Claim C6, as stated, fails twice. A change of the track size alone is no cause for a
  new ratio: after a first render with a track of 100 and a content size of 1000, a
  render with the same scrollbar element, now 200 wide, and the same content size does
  not run the effect, and no ratio is handed on. And an empty content does not give the
  ratio 0: with a track of 100 and a content size of 0 the first render hands on
  \<open>Infinity\<close>.
\<close>

theorem thumb_ratio_recompute_counterexample:
  "fst (scrollbarX_render None
          (Some \<lparr>element_id = 1, style_width = 100, style_height = 10\<rparr>)
          (Some \<lparr>scrollLeft = 0, scrollTop = 0, scrollWidth = 1000, scrollHeight = 400,
                 offsetWidth = 400, offsetHeight = 400\<rparr>) 7) = Some (Inr (1 / 10))
   \<and> fst (scrollbarX_render
          (Some (snd (scrollbarX_render None
             (Some \<lparr>element_id = 1, style_width = 100, style_height = 10\<rparr>)
             (Some \<lparr>scrollLeft = 0, scrollTop = 0, scrollWidth = 1000, scrollHeight = 400,
                    offsetWidth = 400, offsetHeight = 400\<rparr>) 7)))
          (Some \<lparr>element_id = 1, style_width = 200, style_height = 10\<rparr>)
          (Some \<lparr>scrollLeft = 0, scrollTop = 0, scrollWidth = 1000, scrollHeight = 400,
                 offsetWidth = 400, offsetHeight = 400\<rparr>) 7) = None
   \<and> fst (scrollbarX_render None
          (Some \<lparr>element_id = 1, style_width = 100, style_height = 10\<rparr>)
          (Some \<lparr>scrollLeft = 0, scrollTop = 0, scrollWidth = 0, scrollHeight = 0,
                 offsetWidth = 0, offsetHeight = 0\<rparr>) 7) = Some (Inl PosInfinity)
   \<and> fst (scrollbarX_render None
          (Some \<lparr>element_id = 1, style_width = 100, style_height = 10\<rparr>)
          (Some \<lparr>scrollLeft = 0, scrollTop = 0, scrollWidth = 0, scrollHeight = 0,
                 offsetWidth = 0, offsetHeight = 0\<rparr>) 7) \<noteq> Some (Inr 0)"
  by (simp add: scrollbarX_render_def scrollbarX_deps_def useLayoutEffect_runs_def
      thumbRatioEffectX_def contentWidth_def js_div_def Let_def)

text \<open>
  Claim C6, amended. On its first render, and on every later render in which the content
  size or the scrollbar element differs from the render before, each axis with a
  scrollbar element and a content size other than 0 recomputes the thumb ratio as the
  track size divided by the content size and hands it to the ratio consumer.
\<close>

theorem thumb_ratio_recomputed_on_content_change:
  "(contentWidth vp \<noteq> 0
      \<longrightarrow> fst (scrollbarX_render None (Some sb) vp h)
            = Some (Inr (style_width sb / contentWidth vp)))
   \<and> (contentWidth vp \<noteq> 0
        \<and> (dep_content d \<noteq> contentWidth vp \<or> dep_scrollbar d \<noteq> Some (element_id sb))
      \<longrightarrow> fst (scrollbarX_render (Some d) (Some sb) vp h)
            = Some (Inr (style_width sb / contentWidth vp)))
   \<and> (contentHeight vp \<noteq> 0
      \<longrightarrow> fst (scrollbarY_render None (Some sb) vp h)
            = Some (Inr (style_height sb / contentHeight vp)))
   \<and> (contentHeight vp \<noteq> 0
        \<and> (dep_content d \<noteq> contentHeight vp \<or> dep_scrollbar d \<noteq> Some (element_id sb))
      \<longrightarrow> fst (scrollbarY_render (Some d) (Some sb) vp h)
            = Some (Inr (style_height sb / contentHeight vp)))"
  by (auto simp add: scrollbarX_render_def scrollbarY_render_def scrollbarX_deps_def
      scrollbarY_deps_def useLayoutEffect_runs_def thumbRatioEffectX_def
      thumbRatioEffectY_def js_div_def Let_def)

theorem thumb_ratio_recomputed_on_content_change_witness:
  "contentWidth (Some \<lparr>scrollLeft = 0, scrollTop = 0, scrollWidth = 1000, scrollHeight = 2000,
            offsetWidth = 400, offsetHeight = 400\<rparr>) \<noteq> 0
   \<and> contentHeight (Some \<lparr>scrollLeft = 0, scrollTop = 0, scrollWidth = 1000, scrollHeight = 2000,
            offsetWidth = 400, offsetHeight = 400\<rparr>) \<noteq> 0
   \<and> dep_content \<lparr>dep_scrollbar = Some 1, dep_content = 500, dep_handler = 7\<rparr>
       \<noteq> contentWidth (Some \<lparr>scrollLeft = 0, scrollTop = 0, scrollWidth = 1000,
            scrollHeight = 2000, offsetWidth = 400, offsetHeight = 400\<rparr>)
   \<and> dep_content \<lparr>dep_scrollbar = Some 1, dep_content = 500, dep_handler = 7\<rparr>
       \<noteq> contentHeight (Some \<lparr>scrollLeft = 0, scrollTop = 0, scrollWidth = 1000,
            scrollHeight = 2000, offsetWidth = 400, offsetHeight = 400\<rparr>)
   \<and> fst (scrollbarX_render None
          (Some \<lparr>element_id = 1, style_width = 400, style_height = 400\<rparr>)
          (Some \<lparr>scrollLeft = 0, scrollTop = 0, scrollWidth = 1000, scrollHeight = 2000,
                 offsetWidth = 400, offsetHeight = 400\<rparr>) 7) = Some (Inr (2 / 5))
   \<and> fst (scrollbarX_render (Some \<lparr>dep_scrollbar = Some 1, dep_content = 500, dep_handler = 7\<rparr>)
          (Some \<lparr>element_id = 1, style_width = 400, style_height = 400\<rparr>)
          (Some \<lparr>scrollLeft = 0, scrollTop = 0, scrollWidth = 1000, scrollHeight = 2000,
                 offsetWidth = 400, offsetHeight = 400\<rparr>) 7) = Some (Inr (2 / 5))
   \<and> fst (scrollbarY_render None
          (Some \<lparr>element_id = 1, style_width = 400, style_height = 400\<rparr>)
          (Some \<lparr>scrollLeft = 0, scrollTop = 0, scrollWidth = 1000, scrollHeight = 2000,
                 offsetWidth = 400, offsetHeight = 400\<rparr>) 7) = Some (Inr (1 / 5))
   \<and> fst (scrollbarY_render (Some \<lparr>dep_scrollbar = Some 1, dep_content = 500, dep_handler = 7\<rparr>)
          (Some \<lparr>element_id = 1, style_width = 400, style_height = 400\<rparr>)
          (Some \<lparr>scrollLeft = 0, scrollTop = 0, scrollWidth = 1000, scrollHeight = 2000,
                 offsetWidth = 400, offsetHeight = 400\<rparr>) 7) = Some (Inr (1 / 5))"
  using thumb_ratio_recomputed_on_content_change [of
       "Some \<lparr>scrollLeft = 0, scrollTop = 0, scrollWidth = 1000, scrollHeight = 2000,
            offsetWidth = 400, offsetHeight = 400\<rparr>"
       "\<lparr>element_id = 1, style_width = 400, style_height = 400\<rparr>" 7
       "\<lparr>dep_scrollbar = Some 1, dep_content = 500, dep_handler = 7\<rparr>"]
  by (simp add: contentWidth_def contentHeight_def)


section \<open>The visibility policy: theorems\<close>

text \<open>
  Claim C7, as stated, fails: for the value \<open>overlay\<close>, which is none of the four tags,
  nothing is rendered, while \<open>hover\<close> renders the hover-triggered scrollbar.
\<close>

theorem unrecognized_policy_counterexample:
  "ScrollAreaScrollbar (ScrollArea_type (Some ''overlay'')) = None
   \<and> ScrollAreaScrollbar ''hover'' = Some ScrollAreaScrollbarHover
   \<and> ScrollAreaScrollbar (ScrollArea_type (Some ''overlay'')) \<noteq> ScrollAreaScrollbar ''hover''"
  by (simp add: ScrollAreaScrollbar_def ScrollArea_type_def)

text \<open>
  Claim C7, amended. When no policy value is given, the scrollbar is the hover-triggered
  one; when a value is given that is none of \<open>always\<close>, \<open>auto\<close>, \<open>hover\<close>, \<open>scroll\<close>,
  nothing is rendered.
\<close>

theorem policy_default_and_unrecognized:
  "ScrollAreaScrollbar (ScrollArea_type None) = Some ScrollAreaScrollbarHover
   \<and> (t \<notin> {''always'', ''auto'', ''hover'', ''scroll''}
        \<longrightarrow> ScrollAreaScrollbar (ScrollArea_type (Some t)) = None)"
  by (simp add: ScrollAreaScrollbar_def ScrollArea_type_def)

theorem policy_default_and_unrecognized_witness:
  "''overlay'' \<notin> {''always'', ''auto'', ''hover'', ''scroll''}
   \<and> ScrollAreaScrollbar (ScrollArea_type None) = Some ScrollAreaScrollbarHover
   \<and> ScrollAreaScrollbar (ScrollArea_type (Some ''overlay'')) = None"
  using policy_default_and_unrecognized [of "''overlay''"] by simp


section \<open>Dragging: theorems\<close>

text \<open>
  Claim C9, as stated, fails: with content extent 1000 and track size 100 the ratio is
  \<open>100 / 1000\<close>, not 0.4; the thumb is then 10 pixels long, not 40; and from the pointer
  position 5, where the scroll position is 0, a move of 30 pixels does not lead to the
  scroll position 300.
\<close>

theorem end_to_end_example_counterexample:
  "thumbRatioEffectX (Some 100)
     (Some \<lparr>scrollLeft = 0, scrollTop = 0, scrollWidth = 1000, scrollHeight = 1000,
            offsetWidth = 400, offsetHeight = 400\<rparr>) \<noteq> Some (Inr (4 / 10))
   \<and> getThumbSizePx (1 / 10) \<lparr>size_px = 100, paddingStart = 0, paddingEnd = 0\<rparr> \<noteq> 40
   \<and> getScrollPositionFromPointer \<lparr>pointerOffsetRef = 0, thumbRatio = 1 / 10\<rparr> 5
       \<lparr>content = 1000, viewport = 400,
        scrollbar = \<lparr>size_px = 100, paddingStart = 0, paddingEnd = 0\<rparr>\<rparr> = Inr 0
   \<and> getScrollPositionFromPointer \<lparr>pointerOffsetRef = 0, thumbRatio = 1 / 10\<rparr> (5 + 30)
       \<lparr>content = 1000, viewport = 400,
        scrollbar = \<lparr>size_px = 100, paddingStart = 0, paddingEnd = 0\<rparr>\<rparr> \<noteq> Inr (0 + 300)"
  by (simp add: thumbRatioEffectX_def contentWidth_def js_div_def getThumbSizePx_def
      getScrollPositionFromPointer_def interpolateScrollPositionFromPointer_def
      with_thumb_def linearScale_def Let_def)

text \<open>
  Claim C9, amended. With viewport extent 400, content extent 1000, track size 100 and
  no padding, the ratio is 0.1 and the thumb is 10 pixels long; with no recorded pointer
  offset, moving the pointer by 30 pixels from any position raises the computed scroll
  position by \<open>30 / (100 - 10) * 600 = 200\<close>.
\<close>

theorem end_to_end_example:
  "thumbRatioEffectX (Some 100)
     (Some \<lparr>scrollLeft = 0, scrollTop = 0, scrollWidth = 1000, scrollHeight = 1000,
            offsetWidth = 400, offsetHeight = 400\<rparr>) = Some (Inr (1 / 10))
   \<and> getThumbSizePx (1 / 10) \<lparr>size_px = 100, paddingStart = 0, paddingEnd = 0\<rparr> = 10
   \<and> (\<forall>p. \<exists>a b.
        getScrollPositionFromPointer \<lparr>pointerOffsetRef = 0, thumbRatio = 1 / 10\<rparr> p
          \<lparr>content = 1000, viewport = 400,
           scrollbar = \<lparr>size_px = 100, paddingStart = 0, paddingEnd = 0\<rparr>\<rparr> = Inr a
        \<and> getScrollPositionFromPointer \<lparr>pointerOffsetRef = 0, thumbRatio = 1 / 10\<rparr> (p + 30)
          \<lparr>content = 1000, viewport = 400,
           scrollbar = \<lparr>size_px = 100, paddingStart = 0, paddingEnd = 0\<rparr>\<rparr> = Inr b
        \<and> b - a = 30 / (100 - 10) * 600 \<and> b - a = 200)"
proof -
  have ratio: "thumbRatioEffectX (Some 100)
     (Some \<lparr>scrollLeft = 0, scrollTop = 0, scrollWidth = 1000, scrollHeight = 1000,
            offsetWidth = 400, offsetHeight = 400\<rparr>) = Some (Inr (1 / 10))"
    by (simp add: thumbRatioEffectX_def contentWidth_def js_div_def)
  have px: "getThumbSizePx (1 / 10) \<lparr>size_px = 100, paddingStart = 0, paddingEnd = 0\<rparr> = 10"
    by (simp add: getThumbSizePx_def)
  have pos: "getScrollPositionFromPointer \<lparr>pointerOffsetRef = 0, thumbRatio = 1 / 10\<rparr> p
          \<lparr>content = 1000, viewport = 400,
           scrollbar = \<lparr>size_px = 100, paddingStart = 0, paddingEnd = 0\<rparr>\<rparr>
        = Inr (600 / 90 * (p - 5))" for p
    by (simp add: getScrollPositionFromPointer_def px with_thumb_def
        interpolateScrollPositionFromPointer_Inr field_simps)
  have step: "600 / 90 * (p + 30 - 5) - 600 / 90 * (p - 5) = (200::real)" for p
    by argo
  have step': "600 / 90 * (p + 30 - 5) - 600 / 90 * (p - 5) = 30 / (100 - 10) * (600::real)" for p
    by argo
  have move: "\<exists>a b.
        getScrollPositionFromPointer \<lparr>pointerOffsetRef = 0, thumbRatio = 1 / 10\<rparr> p
          \<lparr>content = 1000, viewport = 400,
           scrollbar = \<lparr>size_px = 100, paddingStart = 0, paddingEnd = 0\<rparr>\<rparr> = Inr a
        \<and> getScrollPositionFromPointer \<lparr>pointerOffsetRef = 0, thumbRatio = 1 / 10\<rparr> (p + 30)
          \<lparr>content = 1000, viewport = 400,
           scrollbar = \<lparr>size_px = 100, paddingStart = 0, paddingEnd = 0\<rparr>\<rparr> = Inr b
        \<and> b - a = 30 / (100 - 10) * 600 \<and> b - a = 200" for p
    using pos [of p] pos [of "p + 30"] step' [of p] step [of p] by blast
  from ratio px move show ?thesis by blast
qed

lemma end_to_end_with_ratio_two_fifths:
  "getThumbSizePx (2 / 5) \<lparr>size_px = 100, paddingStart = 0, paddingEnd = 0\<rparr> = 40
   \<and> getScrollPositionFromPointer \<lparr>pointerOffsetRef = 0, thumbRatio = 2 / 5\<rparr> 20
       \<lparr>content = 1000, viewport = 400,
        scrollbar = \<lparr>size_px = 100, paddingStart = 0, paddingEnd = 0\<rparr>\<rparr> = Inr 0
   \<and> getScrollPositionFromPointer \<lparr>pointerOffsetRef = 0, thumbRatio = 2 / 5\<rparr> (20 + 30)
       \<lparr>content = 1000, viewport = 400,
        scrollbar = \<lparr>size_px = 100, paddingStart = 0, paddingEnd = 0\<rparr>\<rparr> = Inr 300"
  by (simp add: getThumbSizePx_def getScrollPositionFromPointer_def with_thumb_def
      interpolateScrollPositionFromPointer_Inr)

text \<open>
  Claim C10. A pointer offset of 0, whether stored by a pointer-down on the leading edge
  of the thumb, by a pointer-up, or never stored at all, makes the scroll position be
  computed with half the thumb's pixel size as the pointer offset.
\<close>

theorem zero_pointer_offset_uses_half_thumb:
  "getScrollPositionFromPointer (onThumbPointerUp st) p s
     = interpolateScrollPositionFromPointer p
         (getThumbSizePx (thumbRatio st) (scrollbar s) / 2)
         (with_thumb s (getThumbSizePx (thumbRatio st) (scrollbar s)))
   \<and> getScrollPositionFromPointer (onThumbPointerDown horizontal \<lparr>x = 0, y = py\<rparr> st) p s
     = getScrollPositionFromPointer (onThumbPointerUp st) p s
   \<and> getScrollPositionFromPointer (onThumbPointerDown vertical \<lparr>x = px, y = 0\<rparr> st) p s
     = getScrollPositionFromPointer (onThumbPointerUp st) p s
   \<and> getScrollPositionFromPointer (st\<lparr>pointerOffsetRef := 0\<rparr>) p s
     = interpolateScrollPositionFromPointer p
         (getThumbSizePx (thumbRatio st) (scrollbar s) / 2)
         (with_thumb s (getThumbSizePx (thumbRatio st) (scrollbar s)))"
  by (simp add: getScrollPositionFromPointer_def onThumbPointerUp_def onThumbPointerDown_def
      Let_def)

text \<open>
  For instance, with a thumb of 40 pixels on a track of 100, a pointer-down at offset 0
  followed by a move to position 50 gives the scroll position 300, where the offset 0
  taken as it is would give 500.
\<close>

lemma zero_offset_example:
  "getScrollPositionFromPointer
      (onThumbPointerDown horizontal \<lparr>x = 0, y = 3\<rparr> \<lparr>pointerOffsetRef = 0, thumbRatio = 2 / 5\<rparr>) 50
      \<lparr>content = 1000, viewport = 400,
       scrollbar = \<lparr>size_px = 100, paddingStart = 0, paddingEnd = 0\<rparr>\<rparr> = Inr 300
   \<and> interpolateScrollPositionFromPointer 50 0
      \<lparr>content = 1000, viewport = 400,
       scrollbar = \<lparr>size_px = 100, paddingStart = 0, paddingEnd = 0\<rparr>, thumb = 40\<rparr> = Inr 500"
  by (simp add: getScrollPositionFromPointer_def onThumbPointerDown_def getThumbSizePx_def
      interpolateScrollPositionFromPointer_def with_thumb_def linearScale_def js_div_def Let_def)


end
